theory Spec2Isabelle
  imports
    Complex_Main
    "HOL-Library.Char_ord"
    "HOL-Library.List_Lexorder"
    "HOL-Library.AList"
    "HOL-Library.Sublist"
    "HOL-Library.Multiset"
begin

section \<open>The export methods of PhotoInfo\<close>

text \<open>
  A shallow embedding of \<^verbatim>\<open>export\<close>, \<^verbatim>\<open>export2\<close>, \<^verbatim>\<open>_export_photo\<close>,
  \<^verbatim>\<open>_write_exif_data\<close>, \<^verbatim>\<open>_exiftool_json_sidecar\<close>, \<^verbatim>\<open>_xmp_sidecar\<close> and
  \<^verbatim>\<open>_write_sidecar\<close>. The file system and the export database are explicit state;
  every \<^verbatim>\<open>raise\<close> is a value of type \<open>error\<close>, returned together with the state the
  call has reached, since a Python exception does not undo the effects before it.
  Calls to \<^verbatim>\<open>logging\<close> have no effect on that state and are left out.
\<close>

datatype error = ValueError | TypeError | FileNotFoundError | FileExistsError | IndexError

subsection \<open>Paths\<close>

text \<open>
  A path is a directory and a file name in it: \<^verbatim>\<open>pathlib.Path(dest) / fname\<close> is the
  pair \<open>(dest, fname)\<close>, where \<open>fname\<close> is one path component. \<^verbatim>\<open>str(dest)\<close>, the
  \<^verbatim>\<open>Path\<close> and the strings \<^verbatim>\<open>glob\<close> returns name the same file and are the same value here.
\<close>

type_synonym path = "string \<times> string"

definition parent :: "path \<Rightarrow> string" where
  "parent p = fst p"

definition name :: "path \<Rightarrow> string" where
  "name p = snd p"

text \<open>
  \<^verbatim>\<open>PurePath.suffix\<close> and \<^verbatim>\<open>PurePath.stem\<close>: with \<^verbatim>\<open>i = name.rfind('.')\<close>, the suffix is
  \<^verbatim>\<open>name[i:]\<close> and the stem \<^verbatim>\<open>name[:i]\<close> when \<^verbatim>\<open>0 < i < len(name) - 1\<close>; otherwise the suffix
  is empty and the stem is the name. \<open>ext_rev\<close> is the reversed text after the last dot,
  \<open>upto_dot_rev\<close> the reversed text up to and including it.
\<close>

definition ext_rev :: "string \<Rightarrow> string" where
  "ext_rev n = takeWhile (\<lambda>c. c \<noteq> CHR ''.'') (rev n)"

definition upto_dot_rev :: "string \<Rightarrow> string" where
  "upto_dot_rev n = dropWhile (\<lambda>c. c \<noteq> CHR ''.'') (rev n)"

definition has_suffix :: "string \<Rightarrow> bool" where
  "has_suffix n \<longleftrightarrow> 2 \<le> length (upto_dot_rev n) \<and> ext_rev n \<noteq> []"

definition suffix_of :: "string \<Rightarrow> string" where
  "suffix_of n = (if has_suffix n then CHR ''.'' # rev (ext_rev n) else [])"

definition stem_of :: "string \<Rightarrow> string" where
  "stem_of n = (if has_suffix n then rev (tl (upto_dot_rev n)) else n)"

definition stem :: "path \<Rightarrow> string" where
  "stem p = stem_of (name p)"

definition suffix_p :: "path \<Rightarrow> string" where
  "suffix_p p = suffix_of (name p)"

subsection \<open>Metadata values\<close>

text \<open>
  The values of the \<^verbatim>\<open>exif\<close> dictionary are strings and lists of strings. A dictionary is
  an association list in insertion order, as a Python \<^verbatim>\<open>dict\<close> keeps it;
  \<^verbatim>\<open>exif[k] = v\<close> is \<open>AList.update k v\<close>, which replaces in place or appends.
  The JSON text \<^verbatim>\<open>json.dumps([exif])\<close> is modelled by the document it serialises, a
  list holding the one dictionary, so \<^verbatim>\<open>json.loads(s)[0]\<close> is the head of that list.
\<close>

datatype jval = JStr string | JList "string list"

type_synonym jdict = "(string \<times> jval) list"

type_synonym json_str = "jdict list"

text \<open>Equality of two parsed dictionaries, which Python decides key by key, whatever the order.\<close>

definition dict_eq :: "jdict \<Rightarrow> jdict \<Rightarrow> bool" where
  "dict_eq a b \<longleftrightarrow> list_all (\<lambda>k. map_of a k = map_of b k) (map fst a @ map fst b)"

subsection \<open>The file system\<close>

text \<open>
  Directory entries name inodes, so that two paths can be one file (\<^verbatim>\<open>os.link\<close>,
  \<^verbatim>\<open>Path.samefile\<close>). A file holds its data, the metadata tags embedded in it, its
  extended attributes and its modification time. Export directories hold regular files only.
\<close>

record file_data =
  bytes :: string
  tags :: jdict
  xattrs :: "string list"
  mtime :: nat

record filesys =
  dirs :: "string list"
  entries :: "(path \<times> nat) list"
  inodes :: "nat \<Rightarrow> file_data option"
  now :: nat

definition inode_of :: "filesys \<Rightarrow> path \<Rightarrow> nat option" where
  "inode_of fs p = map_of (entries fs) p"

definition exists :: "filesys \<Rightarrow> path \<Rightarrow> bool" where
  "exists fs p \<longleftrightarrow> inode_of fs p \<noteq> None"

definition isfile :: "filesys \<Rightarrow> path \<Rightarrow> bool" where
  "isfile fs p \<longleftrightarrow> exists fs p"

definition isdir :: "filesys \<Rightarrow> string \<Rightarrow> bool" where
  "isdir fs d \<longleftrightarrow> d \<in> set (dirs fs)"

definition read_file :: "filesys \<Rightarrow> path \<Rightarrow> file_data option" where
  "read_file fs p = (case inode_of fs p of None \<Rightarrow> None | Some i \<Rightarrow> inodes fs i)"

definition samefile :: "filesys \<Rightarrow> path \<Rightarrow> path \<Rightarrow> bool" where
  "samefile fs p q \<longleftrightarrow> exists fs p \<and> inode_of fs p = inode_of fs q"

definition fresh_inode :: "filesys \<Rightarrow> nat" where
  "fresh_inode fs = Suc (foldr max (map snd (entries fs)) 0)"

definition unlink :: "filesys \<Rightarrow> path \<Rightarrow> filesys" where
  "unlink fs p = fs\<lparr>entries := AList.delete p (entries fs)\<rparr>"

definition tag_size :: "string \<times> jval \<Rightarrow> nat" where
  "tag_size kv = length (fst kv) +
     (case snd kv of JStr s \<Rightarrow> length s | JList xs \<Rightarrow> sum_list (map length xs))"

definition file_size :: "file_data \<Rightarrow> nat" where
  "file_size f = length (bytes f) + sum_list (map tag_size (tags f))"

text \<open>
  \<^verbatim>\<open>filecmp.cmp(f1, f2)\<close> of the standard library, with its default \<^verbatim>\<open>shallow=True\<close>:
  files whose \<^verbatim>\<open>os.stat\<close> signatures (size and modification time) agree are equal
  without being read; otherwise they are compared byte for byte.
\<close>

definition same_content :: "file_data \<Rightarrow> file_data \<Rightarrow> bool" where
  "same_content f g \<longleftrightarrow> bytes f = bytes g \<and> tags f = tags g"

definition filecmp_cmp :: "filesys \<Rightarrow> path \<Rightarrow> path \<Rightarrow> bool" where
  "filecmp_cmp fs p q =
     (case (read_file fs p, read_file fs q) of
        (Some f, Some g) \<Rightarrow>
          (file_size f = file_size g \<and> mtime f = mtime g) \<or> same_content f g
      | _ \<Rightarrow> False)"

subsection \<open>File primitives and signatures\<close>

text \<open>
  Modelled from the spec: \<^verbatim>\<open>_copy_file\<close> and \<^verbatim>\<open>_hardlink_file\<close> of \<^verbatim>\<open>utils\<close> and
  \<^verbatim>\<open>file_sig\<close>, \<^verbatim>\<open>cmp_file\<close> of \<^verbatim>\<open>_filecmp\<close> are not among the sources. The copy
  primitive gives the destination a file of its own with the data of the source,
  keeping the extended attributes unless \<^verbatim>\<open>norsrc\<close>; the link primitive makes the
  destination a second name of the source's inode and fails on an occupied name. Both
  fail on a missing source. A signature is the triple (size, modification time, name);
  \<^verbatim>\<open>cmp_file(f, s)\<close> holds when the signature of \<open>f\<close> is \<open>s\<close>. The stored value \<open>None\<close>
  stands for the reset triple \<^verbatim>\<open>(None, None, None)\<close> and for a missing row.
\<close>

type_synonym signature = "nat \<times> nat \<times> string"

definition copy_file :: "filesys \<Rightarrow> path \<Rightarrow> path \<Rightarrow> bool \<Rightarrow> error + filesys" where
  "copy_file fs src dest norsrc =
     (case read_file fs src of
        None \<Rightarrow> Inl FileNotFoundError
      | Some f \<Rightarrow>
          Inr (fs\<lparr>entries := AList.update dest (fresh_inode fs) (entries fs),
                  inodes := (inodes fs)(fresh_inode fs \<mapsto>
                              f\<lparr>xattrs := (if norsrc then [] else xattrs f)\<rparr>)\<rparr>))"

definition hardlink_file :: "filesys \<Rightarrow> path \<Rightarrow> path \<Rightarrow> error + filesys" where
  "hardlink_file fs src dest =
     (case inode_of fs src of
        None \<Rightarrow> Inl FileNotFoundError
      | Some i \<Rightarrow>
          if exists fs dest then Inl FileExistsError
          else Inr (fs\<lparr>entries := entries fs @ [(dest, i)]\<rparr>))"

definition file_sig :: "filesys \<Rightarrow> path \<Rightarrow> signature option" where
  "file_sig fs p =
     (case read_file fs p of
        None \<Rightarrow> None
      | Some f \<Rightarrow> Some (file_size f, mtime f, name p))"

definition cmp_file :: "filesys \<Rightarrow> path \<Rightarrow> signature option \<Rightarrow> bool" where
  "cmp_file fs p sg \<longleftrightarrow> sg \<noteq> None \<and> file_sig fs p = sg"

text \<open>
  \<^verbatim>\<open>open(filename, "w")\<close>, \<^verbatim>\<open>write\<close>, \<^verbatim>\<open>close\<close>: an existing file is truncated and
  rewritten in place, a missing one is created.
\<close>

definition write_text :: "filesys \<Rightarrow> path \<Rightarrow> string \<Rightarrow> filesys" where
  "write_text fs p txt =
     (case inode_of fs p of
        Some i \<Rightarrow>
          fs\<lparr>inodes := (inodes fs)(i \<mapsto>
                \<lparr>bytes = txt, tags = [],
                 xattrs = (case inodes fs i of None \<Rightarrow> [] | Some f \<Rightarrow> xattrs f),
                 mtime = now fs\<rparr>)\<rparr>
      | None \<Rightarrow>
          fs\<lparr>entries := entries fs @ [(p, fresh_inode fs)],
             inodes := (inodes fs)(fresh_inode fs \<mapsto>
                \<lparr>bytes = txt, tags = [], xattrs = [], mtime = now fs\<rparr>)\<rparr>)"

text \<open>
  \<^verbatim>\<open>glob.glob\<close> for the two patterns the export uses, \<^verbatim>\<open>"{stem}*"\<close> and
  \<^verbatim>\<open>"{stem} (*{suffix}"\<close> in one directory, for names without the metacharacters
  \<^verbatim>\<open>*\<close>, \<^verbatim>\<open>?\<close> and \<^verbatim>\<open>[\<close>: the entries of the directory whose name starts with the text
  before the star and, after it, ends with the text behind the star. The result is in
  the order of the directory.
\<close>

definition glob_plain :: "string \<Rightarrow> bool" where
  "glob_plain x \<longleftrightarrow> list_all (\<lambda>c. c \<noteq> CHR ''*'' \<and> c \<noteq> CHR ''?'' \<and> c \<noteq> CHR ''['') x"

definition star_match :: "string \<Rightarrow> string \<Rightarrow> string \<Rightarrow> bool" where
  "star_match pre post n \<longleftrightarrow>
     prefix pre n \<and> length pre + length post \<le> length n \<and> suffix post n"

definition glob :: "filesys \<Rightarrow> string \<Rightarrow> string \<Rightarrow> string \<Rightarrow> path list" where
  "glob fs dir pre post =
     filter (\<lambda>p. parent p = dir \<and> star_match pre post (name p)) (map fst (entries fs))"

subsection \<open>The export database\<close>

text \<open>
  Modelled from the spec: \<^verbatim>\<open>ExportDB\<close> and \<^verbatim>\<open>ExportDBNoOp\<close> of \<^verbatim>\<open>_export_db\<close> are not
  among the sources. The ledger of section 4.2 keeps, per destination path, the uuid,
  the two signatures and the exif payload, and per uuid the info JSON. The no-op
  variant answers absent to every getter and discards every setter.
\<close>

record ledger =
  uuid_tab :: "path \<Rightarrow> string option"
  info_tab :: "string \<Rightarrow> string option"
  stat_orig_tab :: "path \<Rightarrow> signature option"
  stat_exif_tab :: "path \<Rightarrow> signature option"
  exifdata_tab :: "path \<Rightarrow> json_str option"

datatype export_db = ExportDBNoOp | ExportDB ledger

fun get_uuid_for_file :: "export_db \<Rightarrow> path \<Rightarrow> string option" where
  "get_uuid_for_file ExportDBNoOp p = None"
| "get_uuid_for_file (ExportDB l) p = uuid_tab l p"

fun set_uuid_for_file :: "export_db \<Rightarrow> path \<Rightarrow> string \<Rightarrow> export_db" where
  "set_uuid_for_file ExportDBNoOp p u = ExportDBNoOp"
| "set_uuid_for_file (ExportDB l) p u = ExportDB (l\<lparr>uuid_tab := (uuid_tab l)(p \<mapsto> u)\<rparr>)"

fun get_info_for_uuid :: "export_db \<Rightarrow> string \<Rightarrow> string option" where
  "get_info_for_uuid ExportDBNoOp u = None"
| "get_info_for_uuid (ExportDB l) u = info_tab l u"

fun set_info_for_uuid :: "export_db \<Rightarrow> string \<Rightarrow> string \<Rightarrow> export_db" where
  "set_info_for_uuid ExportDBNoOp u j = ExportDBNoOp"
| "set_info_for_uuid (ExportDB l) u j = ExportDB (l\<lparr>info_tab := (info_tab l)(u \<mapsto> j)\<rparr>)"

fun get_stat_orig_for_file :: "export_db \<Rightarrow> path \<Rightarrow> signature option" where
  "get_stat_orig_for_file ExportDBNoOp p = None"
| "get_stat_orig_for_file (ExportDB l) p = stat_orig_tab l p"

fun set_stat_orig_for_file :: "export_db \<Rightarrow> path \<Rightarrow> signature option \<Rightarrow> export_db" where
  "set_stat_orig_for_file ExportDBNoOp p sg = ExportDBNoOp"
| "set_stat_orig_for_file (ExportDB l) p sg =
     ExportDB (l\<lparr>stat_orig_tab := (stat_orig_tab l)(p := sg)\<rparr>)"

fun get_stat_exif_for_file :: "export_db \<Rightarrow> path \<Rightarrow> signature option" where
  "get_stat_exif_for_file ExportDBNoOp p = None"
| "get_stat_exif_for_file (ExportDB l) p = stat_exif_tab l p"

fun set_stat_exif_for_file :: "export_db \<Rightarrow> path \<Rightarrow> signature option \<Rightarrow> export_db" where
  "set_stat_exif_for_file ExportDBNoOp p sg = ExportDBNoOp"
| "set_stat_exif_for_file (ExportDB l) p sg =
     ExportDB (l\<lparr>stat_exif_tab := (stat_exif_tab l)(p := sg)\<rparr>)"

fun get_exifdata_for_file :: "export_db \<Rightarrow> path \<Rightarrow> json_str option" where
  "get_exifdata_for_file ExportDBNoOp p = None"
| "get_exifdata_for_file (ExportDB l) p = exifdata_tab l p"

fun set_exifdata_for_file :: "export_db \<Rightarrow> path \<Rightarrow> json_str option \<Rightarrow> export_db" where
  "set_exifdata_for_file ExportDBNoOp p d = ExportDBNoOp"
| "set_exifdata_for_file (ExportDB l) p d =
     ExportDB (l\<lparr>exifdata_tab := (exifdata_tab l)(p := d)\<rparr>)"

text \<open>The state an export call works on: the disk and the export database.\<close>

record state =
  fs :: filesys
  db :: export_db

subsection \<open>The asset\<close>

text \<open>
  \<^verbatim>\<open>PhotoInfo\<close>, as far as the export reads it. A \<^verbatim>\<open>datetime\<close> is given by the two
  texts the export takes from it with \<^verbatim>\<open>strftime\<close>. \<open>is_live_photo\<close> is the attribute
  \<^verbatim>\<open>self.live_photo\<close> (the keyword argument of the same name keeps the name),
  \<open>photo_keywords\<close> the attribute \<^verbatim>\<open>self.keywords\<close>,
  \<open>json\<close> the text \<^verbatim>\<open>self.json()\<close>, and \<open>render_template\<close> the template method, which
  returns the rendered values and the unmatched tokens.
\<close>

record datetime =
  strftime_ymdhms :: string
  strftime_z :: string

record photo =
  uuid :: string
  filename :: string
  path :: "path option"
  path_edited :: "path option"
  path_live_photo :: "path option"
  path_raw :: "path option"
  hasadjustments :: bool
  ismissing :: bool
  is_live_photo :: bool
  has_raw :: bool
  burst :: bool
  title :: "string option"
  description :: "string option"
  photo_keywords :: "string list"
  persons :: "string list"
  albums :: "string list"
  location :: "real option \<times> real option"
  date :: datetime
  date_modified :: "datetime option"
  json :: string
  render_template :: "string \<Rightarrow> string list \<times> string list"

text \<open>
  What the export takes from outside this module: the two constants of
  \<^verbatim>\<open>_constants\<close> it compares with, \<^verbatim>\<open>dd_to_dms_str\<close>, the rendering of the XMP
  template, and the AppleScript export, which is given the disk and returns the
  paths it produced, or \<open>None\<close>.
\<close>

record env =
  UNKNOWN_PERSON :: string
  OSXPHOTOS_NONE_SENTINEL :: string
  dd_to_dms_str :: "real \<Rightarrow> real \<Rightarrow> string \<times> string"
  xmp_template :: "photo \<Rightarrow> string list \<Rightarrow> string list \<Rightarrow> string list \<Rightarrow> string"
  export_photo_uuid_applescript ::
    "string \<Rightarrow> string \<Rightarrow> string \<Rightarrow> bool \<Rightarrow> bool \<Rightarrow> bool \<Rightarrow> nat \<Rightarrow> bool
       \<Rightarrow> filesys \<Rightarrow> path list option \<times> filesys"

subsection \<open>The JSON sidecar\<close>

text \<open>Truth of an optional text: neither \<^verbatim>\<open>None\<close> nor empty.\<close>

fun truthy :: "string option \<Rightarrow> bool" where
  "truthy None = False"
| "truthy (Some s) = (s \<noteq> [])"

definition setitem_if :: "bool \<Rightarrow> string \<Rightarrow> jval \<Rightarrow> jdict \<Rightarrow> jdict" where
  "setitem_if c k v d = (if c then AList.update k v d else d)"

text \<open>
  The first match of \<^verbatim>\<open>re.findall(r"([+-]?)([\d]{2})([\d]{2})", offsettime)\<close>: at each
  position an optional sign and four digits.
\<close>

definition is_digit :: "char \<Rightarrow> bool" where
  "is_digit c \<longleftrightarrow> CHR ''0'' \<le> c \<and> c \<le> CHR ''9''"

fun offset_at :: "string \<Rightarrow> (string \<times> string \<times> string) option" where
  "offset_at (a # b # c # d # e # r) =
     (if (a = CHR ''+'' \<or> a = CHR ''-'') \<and> is_digit b \<and> is_digit c \<and> is_digit d \<and> is_digit e
      then Some ([a], [b, c], [d, e])
      else if is_digit a \<and> is_digit b \<and> is_digit c \<and> is_digit d
      then Some ([], [a, b], [c, d])
      else None)"
| "offset_at [a, b, c, d] =
     (if is_digit a \<and> is_digit b \<and> is_digit c \<and> is_digit d
      then Some ([], [a, b], [c, d])
      else None)"
| "offset_at r = None"

fun findall_offset :: "string \<Rightarrow> (string \<times> string \<times> string) option" where
  "findall_offset [] = None"
| "findall_offset (c # cs) =
     (case offset_at (c # cs) of
        Some m \<Rightarrow> Some m
      | None \<Rightarrow> findall_offset cs)"

definition person_list_of :: "env \<Rightarrow> photo \<Rightarrow> string list" where
  "person_list_of E self =
     (if persons self \<noteq> [] then sort (filter (\<lambda>p. p \<noteq> UNKNOWN_PERSON E) (persons self))
      else [])"

definition rendered_keywords_of :: "env \<Rightarrow> photo \<Rightarrow> string list \<Rightarrow> string list" where
  "rendered_keywords_of E self keyword_template =
     filter (\<lambda>keyword. \<not> sublist (OSXPHOTOS_NONE_SENTINEL E) keyword)
       (sort (concat (map (\<lambda>template_str. fst (render_template self template_str))
          keyword_template)))"

definition keyword_list_of ::
  "env \<Rightarrow> photo \<Rightarrow> bool \<Rightarrow> bool \<Rightarrow> string list option \<Rightarrow> string list" where
  "keyword_list_of E self use_albums_as_keywords use_persons_as_keywords keyword_template =
     (if photo_keywords self \<noteq> [] then photo_keywords self else [])
     @ (if use_persons_as_keywords \<and> person_list_of E self \<noteq> []
        then sort (person_list_of E self) else [])
     @ (if use_albums_as_keywords \<and> albums self \<noteq> [] then sort (albums self) else [])
     @ (case keyword_template of
          None \<Rightarrow> []
        | Some kt \<Rightarrow> if kt \<noteq> [] then rendered_keywords_of E self kt else [])"

definition exif_gps :: "env \<Rightarrow> photo \<Rightarrow> jdict \<Rightarrow> jdict" where
  "exif_gps E self exif =
     (case location self of
        (Some lat, Some lon) \<Rightarrow>
          (case dd_to_dms_str E lat lon of
             (lat_str, lon_str) \<Rightarrow>
               AList.update ''EXIF:GPSLongitudeRef'' (JStr (if lon \<ge> 0 then ''East'' else ''West''))
                (AList.update ''EXIF:GPSLatitudeRef'' (JStr (if lat \<ge> 0 then ''North'' else ''South''))
                  (AList.update ''Composite:GPSPosition'' (JStr (lat_str @ '', '' @ lon_str))
                    (AList.update ''EXIF:GPSLongitude'' (JStr lon_str)
                      (AList.update ''EXIF:GPSLatitude'' (JStr lat_str) exif)))))
      | _ \<Rightarrow> exif)"

definition exif_keywords ::
  "env \<Rightarrow> photo \<Rightarrow> bool \<Rightarrow> bool \<Rightarrow> string list option \<Rightarrow> jdict \<Rightarrow> jdict" where
  "exif_keywords E self use_albums_as_keywords use_persons_as_keywords keyword_template exif =
     (let keyword_list =
            keyword_list_of E self use_albums_as_keywords use_persons_as_keywords keyword_template;
          person_list = person_list_of E self
      in setitem_if (photo_keywords self \<noteq> [] \<or> person_list \<noteq> [])
           ''XMP:Subject'' (JList (photo_keywords self @ person_list))
          (setitem_if (person_list \<noteq> []) ''XMP:PersonInImage'' (JList person_list)
            (setitem_if (keyword_list \<noteq> []) ''IPTC:Keywords'' (JList keyword_list)
              (setitem_if (keyword_list \<noteq> []) ''XMP:TagsList'' (JList keyword_list) exif))))"

definition exif_head :: "photo \<Rightarrow> jdict" where
  "exif_head self =
     setitem_if (truthy (title self)) ''XMP:Title'' (JStr (the (title self)))
      (setitem_if (truthy (description self)) ''XMP:Description'' (JStr (the (description self)))
        (setitem_if (truthy (description self)) ''EXIF:ImageDescription''
            (JStr (the (description self)))
          [(''_CreatedBy'', JStr ''osxphotos, https://github.com/RhetTbull/osxphotos'')]))"

definition exiftool_json_sidecar ::
  "env \<Rightarrow> photo \<Rightarrow> bool \<Rightarrow> bool \<Rightarrow> string list option \<Rightarrow> error + json_str" where
  "exiftool_json_sidecar E self use_albums_as_keywords use_persons_as_keywords keyword_template =
     (let exif = exif_gps E self
            (exif_keywords E self use_albums_as_keywords use_persons_as_keywords keyword_template
              (exif_head self))
      in case findall_offset (strftime_z (date self)) of
           None \<Rightarrow> Inl IndexError
         | Some (sign, hh, mm) \<Rightarrow>
             Inr [setitem_if (date_modified self \<noteq> None) ''EXIF:ModifyDate''
                    (JStr (strftime_ymdhms (the (date_modified self))))
                   (AList.update ''EXIF:OffsetTimeOriginal'' (JStr (sign @ hh @ '':'' @ mm))
                     (AList.update ''EXIF:DateTimeOriginal'' (JStr (strftime_ymdhms (date self)))
                       exif))])"

text \<open>\<^verbatim>\<open>json.loads(sidecar)[0].get(tag)\<close>: a field of the sidecar's dictionary.\<close>

definition sidecar_field :: "string \<Rightarrow> error + json_str \<Rightarrow> jval option" where
  "sidecar_field k r = (case r of Inr (d # ds) \<Rightarrow> map_of d k | _ \<Rightarrow> None)"

subsection \<open>Results and options\<close>

text \<open>
  The named tuple \<^verbatim>\<open>ExportResults\<close>, the keyword arguments of \<^verbatim>\<open>export\<close>, and the two
  that \<^verbatim>\<open>export2\<close> adds. \<open>export_db\<close> is \<open>None\<close> or the content of the database object
  the caller passes; the call returns the content it has left in that object.
\<close>

record ExportResults =
  exported :: "path list"
  new :: "path list"
  updated :: "path list"
  skipped :: "path list"
  exif_updated :: "path list"

record export_opts =
  edited :: bool
  live_photo :: bool
  raw_photo :: bool
  export_as_hardlink :: bool
  overwrite :: bool
  increment :: bool
  sidecar_json :: bool
  sidecar_xmp :: bool
  use_photos_export :: bool
  timeout :: nat
  exiftool :: bool
  no_xattr :: bool
  use_albums_as_keywords :: bool
  use_persons_as_keywords :: bool
  keyword_template :: "string list option"

record export2_opts = export_opts +
  update :: bool
  export_db :: "export_db option"

definition results :: "path list \<Rightarrow> path list \<Rightarrow> path list \<Rightarrow> path list \<Rightarrow> ExportResults" where
  "results e n u k = \<lparr>exported = e, new = n, updated = u, skipped = k, exif_updated = []\<rparr>"

text \<open>\<^verbatim>\<open>extend\<close> of the four lists a companion export adds to.\<close>

definition extend_results :: "ExportResults \<Rightarrow> ExportResults \<Rightarrow> ExportResults" where
  "extend_results r1 r2 = r1\<lparr>exported := exported r1 @ exported r2, new := new r1 @ new r2,
                              updated := updated r1 @ updated r2, skipped := skipped r1 @ skipped r2\<rparr>"

subsection \<open>The materializer: \_export\_photo\<close>

text \<open>
  The five setters the export calls after every copy, link or adoption, in the order
  of the source: uuid, info, original signature, exif signature reset, exif payload
  reset.
\<close>

definition db_record :: "export_db \<Rightarrow> path \<Rightarrow> photo \<Rightarrow> signature option \<Rightarrow> export_db" where
  "db_record d dest self sg =
     set_exifdata_for_file
       (set_stat_exif_for_file
         (set_stat_orig_for_file
           (set_info_for_uuid (set_uuid_for_file d dest (uuid self)) (uuid self) (json self))
           dest sg)
         dest None)
       dest None"

definition link_and_record :: "photo \<Rightarrow> path \<Rightarrow> path \<Rightarrow> state \<Rightarrow> error + state" where
  "link_and_record self src dest s =
     (case hardlink_file (fs s) src dest of
        Inl e \<Rightarrow> Inl e
      | Inr fsys \<Rightarrow> Inr \<lparr>fs = fsys, db = db_record (db s) dest self (file_sig fsys dest)\<rparr>)"

definition copy_and_record :: "photo \<Rightarrow> path \<Rightarrow> path \<Rightarrow> bool \<Rightarrow> state \<Rightarrow> error + state" where
  "copy_and_record self src dest norsrc s =
     (case copy_file (fs s) src dest norsrc of
        Inl e \<Rightarrow> Inl e
      | Inr fsys \<Rightarrow> Inr \<lparr>fs = fsys, db = db_record (db s) dest self (file_sig fsys dest)\<rparr>)"

text \<open>
  \<^verbatim>\<open>_export_photo(src, dest, update, export_db, overwrite, no_xattr, export_as_hardlink,
  exiftool)\<close>, branch by branch. In update mode on an existing destination every path
  through the conditions reads the source before any effect (\<^verbatim>\<open>samefile\<close>,
  \<^verbatim>\<open>filecmp.cmp\<close> or \<^verbatim>\<open>os.stat\<close>), so a missing source raises there.
\<close>

definition export_photo ::
  "photo \<Rightarrow> path \<Rightarrow> path \<Rightarrow> bool \<Rightarrow> bool \<Rightarrow> bool \<Rightarrow> bool \<Rightarrow> bool \<Rightarrow> state
     \<Rightarrow> (error + ExportResults) \<times> state" where
  "export_photo self src dest upd overwr noxattr hardlink exift s =
     (let dest_exists = exists (fs s) dest in
      if hardlink then
        (if \<not> upd then
           (let s1 = (if overwr \<and> exists (fs s) dest then s\<lparr>fs := unlink (fs s) dest\<rparr> else s) in
            case link_and_record self src dest s1 of
              Inl e \<Rightarrow> (Inl e, s1)
            | Inr s2 \<Rightarrow> (Inr (results [dest] [] [] []), s2))
         else if dest_exists then
           (if \<not> exists (fs s) src then (Inl FileNotFoundError, s)
            else if samefile (fs s) dest src then (Inr (results [] [] [] [dest]), s)
            else
              (let s1 = s\<lparr>fs := unlink (fs s) dest\<rparr> in
               case link_and_record self src dest s1 of
                 Inl e \<Rightarrow> (Inl e, s1)
               | Inr s2 \<Rightarrow> (Inr (results [dest] [] [dest] []), s2)))
         else
           (case link_and_record self src dest s of
              Inl e \<Rightarrow> (Inl e, s)
            | Inr s2 \<Rightarrow> (Inr (results [dest] [dest] [] []), s2)))
      else
        (if \<not> upd then
           (let s1 = (if overwr \<and> exists (fs s) dest then s\<lparr>fs := unlink (fs s) dest\<rparr> else s) in
            case copy_and_record self src dest noxattr s1 of
              Inl e \<Rightarrow> (Inl e, s1)
            | Inr s2 \<Rightarrow> (Inr (results [dest] [] [] []), s2))
         else if dest_exists then
           (if \<not> exists (fs s) src then (Inl FileNotFoundError, s)
            else if \<not> exift \<and> filecmp_cmp (fs s) src dest \<and> \<not> samefile (fs s) dest src then
              (Inr (results [] [] [] [dest]),
               s\<lparr>db := set_stat_orig_for_file (db s) dest (file_sig (fs s) dest)\<rparr>)
            else if exift \<and> cmp_file (fs s) dest (get_stat_exif_for_file (db s) dest)
                    \<and> \<not> samefile (fs s) dest src then
              (Inr (results [] [] [] [dest]), s)
            else
              (let s1 = s\<lparr>fs := unlink (fs s) dest\<rparr> in
               case copy_and_record self src dest noxattr s1 of
                 Inl e \<Rightarrow> (Inl e, s1)
               | Inr s2 \<Rightarrow> (Inr (results [dest] [] [dest] []), s2)))
         else
           (case copy_and_record self src dest noxattr s of
              Inl e \<Rightarrow> (Inl e, s)
            | Inr s2 \<Rightarrow> (Inr (results [dest] [dest] [] []), s2))))"

subsection \<open>The destination resolver\<close>

text \<open>\<^verbatim>\<open>str(count)\<close>, the decimal digits of a natural number.\<close>

function str_nat :: "nat \<Rightarrow> string" where
  "str_nat n =
     (if n < 10 then [char_of (48 + n)]
      else str_nat (n div 10) @ [char_of (48 + n mod 10)])"
  by pat_completeness auto
termination
  by (relation "measure id") auto

declare str_nat.simps [simp del]

text \<open>The candidate \<^verbatim>\<open>f"{dest.stem} ({count})"\<close>.\<close>

definition numbered :: "string \<Rightarrow> nat \<Rightarrow> string" where
  "numbered st cnt = st @ '' ('' @ str_nat cnt @ '')''"

lemma digit_inj:
  assumes "a < 10" and "b < 10" and "(char_of (48 + a) :: char) = char_of (48 + b)"
  shows "a = (b::nat)"
proof -
  have "of_char (char_of (48 + a) :: char) = (of_char (char_of (48 + b) :: char) :: nat)"
    using assms(3) by simp
  then have "(48 + a) mod 256 = (48 + b) mod 256"
    by (simp add: of_char_of)
  then show "a = b" using assms(1,2) by simp
qed

lemma str_nat_nonempty: "str_nat n \<noteq> []"
  by (subst str_nat.simps) simp

lemma str_nat_inj: "str_nat n = str_nat m \<Longrightarrow> n = m"
proof (induction n arbitrary: m rule: str_nat.induct)
  case (1 n)
  show ?case
  proof (cases "n < 10")
    case True
    then have sn: "str_nat n = [char_of (48 + n)]" by (subst str_nat.simps) simp
    show ?thesis
    proof (cases "m < 10")
      case True
      then have "str_nat m = [char_of (48 + m)]" by (subst str_nat.simps) simp
      with sn "1.prems" \<open>n < 10\<close> True show ?thesis by (auto dest: digit_inj)
    next
      case False
      then have "str_nat m = str_nat (m div 10) @ [char_of (48 + m mod 10)]"
        by (subst str_nat.simps) simp
      with sn "1.prems" str_nat_nonempty [of "m div 10"] show ?thesis by auto
    qed
  next
    case False
    then have sn: "str_nat n = str_nat (n div 10) @ [char_of (48 + n mod 10)]"
      by (subst str_nat.simps) simp
    show ?thesis
    proof (cases "m < 10")
      case True
      then have "str_nat m = [char_of (48 + m)]" by (subst str_nat.simps) simp
      with sn "1.prems" str_nat_nonempty [of "n div 10"] show ?thesis by auto
    next
      case m: False
      then have sm: "str_nat m = str_nat (m div 10) @ [char_of (48 + m mod 10)]"
        by (subst str_nat.simps) simp
      from sn sm "1.prems" have e1: "str_nat (n div 10) = str_nat (m div 10)"
        and e2: "(char_of (48 + n mod 10) :: char) = char_of (48 + m mod 10)" by auto
      from "1.IH" [OF False e1] have d: "n div 10 = m div 10" .
      from digit_inj [OF _ _ e2] have r: "n mod 10 = m mod 10" by simp
      from d r show ?thesis by (metis div_mult_mod_eq)
    qed
  qed
qed

lemma numbered_inj: "numbered st a = numbered st b \<Longrightarrow> a = b"
  by (auto simp: numbered_def dest: str_nat_inj)

lemma finite_numbered: "finite {k. numbered st k \<in> set taken}"
proof -
  have "{k. numbered st k \<in> set taken} = numbered st -` set taken" by auto
  moreover have "inj (numbered st)" by (auto simp: inj_on_def dest: numbered_inj)
  ultimately show ?thesis by (simp add: finite_vimageI)
qed

text \<open>How many candidates from \<open>cnt\<close> on are taken: what the loop below runs down.\<close>

definition pending :: "string \<Rightarrow> string list \<Rightarrow> nat \<Rightarrow> nat" where
  "pending st taken cnt = card {k. cnt \<le> k \<and> numbered st k \<in> set taken}"

lemma pending_step:
  "pending st taken cnt =
     (if numbered st cnt \<in> set taken then Suc (pending st taken (Suc cnt))
      else pending st taken (Suc cnt))"
proof -
  have fin: "finite {k. Suc cnt \<le> k \<and> numbered st k \<in> set taken}"
    by (rule finite_subset [OF _ finite_numbered [of st taken]]) auto
  show ?thesis
  proof (cases "numbered st cnt \<in> set taken")
    case True
    then have "{k. cnt \<le> k \<and> numbered st k \<in> set taken}
        = insert cnt {k. Suc cnt \<le> k \<and> numbered st k \<in> set taken}"
      by (auto simp: le_Suc_eq)
    then show ?thesis using True fin by (simp add: pending_def)
  next
    case False
    then have "{k. cnt \<le> k \<and> numbered st k \<in> set taken}
        = {k. Suc cnt \<le> k \<and> numbered st k \<in> set taken}"
      by (auto simp: le_Suc_eq) (metis le_antisym not_less_eq_eq)
    then show ?thesis using False by (simp add: pending_def)
  qed
qed

text \<open>
  The loop \<^verbatim>\<open>while dest_new in dest_files: dest_new = f"{dest.stem} ({count})"; count += 1\<close>.
\<close>

function increment_loop :: "string \<Rightarrow> string list \<Rightarrow> string \<Rightarrow> nat \<Rightarrow> string" where
  "increment_loop st dest_files dest_new cnt =
     (if dest_new \<in> set dest_files
      then increment_loop st dest_files (numbered st cnt) (Suc cnt)
      else dest_new)"
  by pat_completeness auto
termination
proof (relation "measure (\<lambda>(st, taken, dest_new, cnt).
            2 * pending st taken cnt + (if dest_new \<in> set taken then 1 else 0))")
  show "wf (measure (\<lambda>(st, taken, dest_new, cnt).
            2 * pending st taken cnt + (if dest_new \<in> set taken then 1 else (0::nat))))"
    by simp
next
  fix st :: string and dest_files :: "string list" and dest_new :: string and cnt :: nat
  assume "dest_new \<in> set dest_files"
  then show "((st, dest_files, numbered st cnt, Suc cnt), st, dest_files, dest_new, cnt)
      \<in> measure (\<lambda>(st, taken, dest_new, cnt).
            2 * pending st taken cnt + (if dest_new \<in> set taken then 1 else 0))"
    using pending_step [of st dest_files cnt] by auto
qed

declare increment_loop.simps [simp del]

text \<open>
  Lines 271 to 280 (and 373 to 382): the stems of the files matching
  \<^verbatim>\<open>"{dest.stem}*"\<close>, the first free candidate, and the suffix put back.
\<close>

definition increment_dest :: "filesys \<Rightarrow> path \<Rightarrow> path" where
  "increment_dest fsys dest =
     (parent dest,
      increment_loop (stem dest) (map stem (glob fsys (parent dest) (stem dest) []))
        (stem dest) 1
      @ suffix_p dest)"

text \<open>Lines 206 to 243: the checks of the arguments and the composed destination.\<close>

definition get_dest ::
  "photo \<Rightarrow> filesys \<Rightarrow> string option \<Rightarrow> string list \<Rightarrow> bool \<Rightarrow> bool \<Rightarrow> error + path" where
  "get_dest self fsys dest fnames edit photos_export =
     (if fnames \<noteq> [] \<and> length fnames > 2 then Inl TypeError
      else case dest of
        None \<Rightarrow> Inl ValueError
      | Some d \<Rightarrow>
          if \<not> isdir fsys d then Inl FileNotFoundError
          else if fnames \<noteq> [] \<and> length fnames = 1 then Inr (d, hd fnames)
          else if edit \<and> \<not> photos_export then
            (case path_edited self of
               None \<Rightarrow> Inl FileNotFoundError
             | Some pe \<Rightarrow>
                 Inr (d, stem_of (filename self) @ ''_edited'' @ suffix_of (name pe)))
          else Inr (d, filename self))"

text \<open>
  Lines 322 to 383: in update mode, on an existing destination, find the file that
  belongs to this asset. \<open>adopt\<close> is the backfill of the database for a file without a
  uuid that compares equal to the source.
\<close>

definition adopt :: "photo \<Rightarrow> path \<Rightarrow> state \<Rightarrow> state" where
  "adopt self dest s = s\<lparr>db := db_record (db s) dest self (file_sig (fs s) dest)\<rparr>"

fun find_match :: "photo \<Rightarrow> path \<Rightarrow> path list \<Rightarrow> state \<Rightarrow> (path \<times> state) option" where
  "find_match self src [] s = None"
| "find_match self src (file1 # dest_files) s =
     (if get_uuid_for_file (db s) file1 = Some (uuid self) then Some (file1, s)
      else if get_uuid_for_file (db s) file1 = None \<and> filecmp_cmp (fs s) src file1
      then Some (file1, adopt self file1 s)
      else find_match self src dest_files s)"

definition find_dest :: "photo \<Rightarrow> path \<Rightarrow> path \<Rightarrow> state \<Rightarrow> path \<times> state" where
  "find_dest self src dest s =
     (let adopted = (get_uuid_for_file (db s) dest = None \<and> filecmp_cmp (fs s) src dest);
          s1 = (if adopted then adopt self dest s else s);
          dest_uuid = (if adopted then Some (uuid self) else get_uuid_for_file (db s) dest)
      in if dest_uuid \<noteq> Some (uuid self) then
           (case find_match self src
                   (glob (fs s1) (parent dest) (stem dest @ '' ('') (suffix_p dest)) s1 of
              Some r \<Rightarrow> r
            | None \<Rightarrow> (increment_dest (fs s1) dest, s1))
         else (dest, s1))"

subsection \<open>The local export\<close>

text \<open>Lines 296 to 315: the source file of the edited or of the original version.\<close>

definition source_of :: "photo \<Rightarrow> filesys \<Rightarrow> bool \<Rightarrow> error + path" where
  "source_of self fsys edit =
     (case (if edit then path_edited self else path self) of
        None \<Rightarrow> Inl FileNotFoundError
      | Some src \<Rightarrow> if isfile fsys src then Inr src else Inl FileNotFoundError)"

text \<open>
  Lines 401 to 449: the companions. The video of a live photo goes to the stem of the
  destination with \<^verbatim>\<open>.mov\<close>, the RAW image to that stem with the suffix of the RAW file;
  \<^verbatim>\<open>pathlib.Path(self.path_raw)\<close> raises \<^verbatim>\<open>TypeError\<close> on \<^verbatim>\<open>None\<close>.
\<close>

definition export_live ::
  "photo \<Rightarrow> path \<Rightarrow> export2_opts \<Rightarrow> ExportResults \<Rightarrow> state
     \<Rightarrow> (error + ExportResults) \<times> state" where
  "export_live self dest opts r s =
     (if live_photo opts \<and> is_live_photo self then
        (case path_live_photo self of
           None \<Rightarrow> (Inr r, s)
         | Some src_live \<Rightarrow>
             (case export_photo self src_live (parent dest, stem dest @ ''.mov'')
                     (update opts) (overwrite opts) (no_xattr opts)
                     (export_as_hardlink opts) (exiftool opts) s of
                (Inl e, s1) \<Rightarrow> (Inl e, s1)
              | (Inr r1, s1) \<Rightarrow> (Inr (extend_results r r1), s1)))
      else (Inr r, s))"

definition export_raw ::
  "photo \<Rightarrow> path \<Rightarrow> export2_opts \<Rightarrow> ExportResults \<Rightarrow> state
     \<Rightarrow> (error + ExportResults) \<times> state" where
  "export_raw self dest opts r s =
     (if raw_photo opts \<and> has_raw self then
        (case path_raw self of
           None \<Rightarrow> (Inl TypeError, s)
         | Some raw_path \<Rightarrow>
             (case export_photo self raw_path (parent dest, stem dest @ suffix_p raw_path)
                     (update opts) (overwrite opts) (no_xattr opts)
                     (export_as_hardlink opts) (exiftool opts) s of
                (Inl e, s1) \<Rightarrow> (Inl e, s1)
              | (Inr r1, s1) \<Rightarrow> (Inr (extend_results r r1), s1)))
      else (Inr r, s))"

text \<open>
  Lines 292 to 449: the source, the destination that belongs to the asset (in update
  mode, on an existing destination), the export of the file and of its companions.
  The destination comes back with the results: the sidecars are named after it.
\<close>

definition export_local ::
  "photo \<Rightarrow> path \<Rightarrow> export2_opts \<Rightarrow> state \<Rightarrow> (error + path \<times> ExportResults) \<times> state" where
  "export_local self dest opts s =
     (case source_of self (fs s) (edited opts) of
        Inl e \<Rightarrow> (Inl e, s)
      | Inr src \<Rightarrow>
          (case (if update opts \<and> exists (fs s) dest then find_dest self src dest s
                 else (dest, s)) of
             (dest1, s1) \<Rightarrow>
               (case export_photo self src dest1 (update opts) (overwrite opts) (no_xattr opts)
                       (export_as_hardlink opts) (exiftool opts) s1 of
                  (Inl e, s2) \<Rightarrow> (Inl e, s2)
                | (Inr r, s2) \<Rightarrow>
                    (case export_live self dest1 opts r s2 of
                       (Inl e, s3) \<Rightarrow> (Inl e, s3)
                     | (Inr r3, s3) \<Rightarrow>
                         (case export_raw self dest1 opts r3 s3 of
                            (Inl e, s4) \<Rightarrow> (Inl e, s4)
                          | (Inr r4, s4) \<Rightarrow> (Inr (dest1, r4), s4))))))"

subsection \<open>The export through Photos\<close>

text \<open>
  Lines 450 to 494. \<^verbatim>\<open>if filename:\<close> holds for every non-empty tuple of names, also
  for the two names that the choice of the file name has ignored.
\<close>

definition export_with_photos ::
  "env \<Rightarrow> photo \<Rightarrow> path \<Rightarrow> string list \<Rightarrow> export2_opts \<Rightarrow> state
     \<Rightarrow> (error + path \<times> ExportResults) \<times> state" where
  "export_with_photos E self dest fnames opts s =
     (let live = (live_photo opts \<and> is_live_photo self);
          filestem = (if edited opts \<and> fnames = [] then stem dest @ ''_edited'' else stem dest);
          dest1 = (if edited opts \<and> fnames = [] then (parent dest, filestem @ ''.jpeg'')
                   else dest)
      in case export_photo_uuid_applescript E (uuid self) (parent dest1) filestem
                (\<not> edited opts) (edited opts) live (timeout opts) (burst self) (fs s) of
           (xs, fsys) \<Rightarrow>
             (Inr (dest1, results (case xs of None \<Rightarrow> [] | Some l \<Rightarrow> l) [] [] []),
              s\<lparr>fs := fsys\<rparr>))"

subsection \<open>Sidecar files\<close>

text \<open>
  The text \<^verbatim>\<open>json.dumps\<close> writes for a document, without the escapes of special
  characters.
\<close>

definition quoted :: "string \<Rightarrow> string" where
  "quoted x = [char_of (34::nat)] @ x @ [char_of (34::nat)]"

fun join :: "string \<Rightarrow> string list \<Rightarrow> string" where
  "join sep [] = []"
| "join sep [x] = x"
| "join sep (x # y # r) = x @ sep @ join sep (y # r)"

fun dumps_val :: "jval \<Rightarrow> string" where
  "dumps_val (JStr x) = quoted x"
| "dumps_val (JList xs) = ''['' @ join '', '' (map quoted xs) @ '']''"

definition dumps_dict :: "jdict \<Rightarrow> string" where
  "dumps_dict d =
     ''{'' @ join '', '' (map (\<lambda>kv. quoted (fst kv) @ '': '' @ dumps_val (snd kv)) d) @ ''}''"

definition json_dumps :: "json_str \<Rightarrow> string" where
  "json_dumps doc = ''['' @ join '', '' (map dumps_dict doc) @ '']''"

text \<open>
  \<^verbatim>\<open>_xmp_sidecar\<close>: the keywords, persons and subjects handed to the template (none of
  them sorted here), and the rendered text without its blank lines.
\<close>

fun split_on :: "char \<Rightarrow> string \<Rightarrow> string list" where
  "split_on c [] = [[]]"
| "split_on c (x # xs) =
     (if x = c then [] # split_on c xs
      else (case split_on c xs of l # ls \<Rightarrow> (x # l) # ls | [] \<Rightarrow> [[x]]))"

definition is_space :: "char \<Rightarrow> bool" where
  "is_space c \<longleftrightarrow> (of_char c :: nat) \<in> set [9, 10, 11, 12, 13, 28, 29, 30, 31, 32, 133, 160]"

definition strip_blank_lines :: "string \<Rightarrow> string" where
  "strip_blank_lines x =
     join [char_of (10::nat)]
       (filter (\<lambda>line. \<not> list_all is_space line) (split_on (char_of (10::nat)) x))"

definition xmp_sidecar ::
  "env \<Rightarrow> photo \<Rightarrow> bool \<Rightarrow> bool \<Rightarrow> string list option \<Rightarrow> string" where
  "xmp_sidecar E self use_albums use_persons template =
     (let person_list = filter (\<lambda>p. p \<noteq> UNKNOWN_PERSON E) (persons self);
          keyword_list =
            photo_keywords self
            @ (if use_persons \<and> person_list \<noteq> [] then person_list else [])
            @ (if use_albums \<and> albums self \<noteq> [] then albums self else [])
            @ (case template of
                 None \<Rightarrow> []
               | Some kt \<Rightarrow>
                   filter (\<lambda>keyword. \<not> sublist (OSXPHOTOS_NONE_SENTINEL E) keyword)
                     (concat (map (\<lambda>template_str. fst (render_template self template_str)) kt)));
          subject_list = (if photo_keywords self \<noteq> [] \<or> person_list \<noteq> []
                          then photo_keywords self @ person_list else [])
      in strip_blank_lines (xmp_template E self keyword_list person_list subject_list))"

text \<open>
  \<^verbatim>\<open>_write_sidecar\<close>: its \<^verbatim>\<open>ValueError\<close> needs a false file name, and a
  \<^verbatim>\<open>pathlib.Path\<close> is never false, so the text is written.
\<close>

definition write_sidecar :: "filesys \<Rightarrow> path \<Rightarrow> string \<Rightarrow> filesys" where
  "write_sidecar fsys p sidecar_str = write_text fsys p sidecar_str"

text \<open>Lines 499 to 525: the two sidecars, named after the stem of the destination.\<close>

definition write_sidecars ::
  "env \<Rightarrow> photo \<Rightarrow> path \<Rightarrow> export2_opts \<Rightarrow> state \<Rightarrow> (error + unit) \<times> state" where
  "write_sidecars E self dest opts s =
     (case (if sidecar_json opts then
              (case exiftool_json_sidecar E self (use_albums_as_keywords opts)
                      (use_persons_as_keywords opts) (keyword_template opts) of
                 Inl e \<Rightarrow> (Inl e, s)
               | Inr doc \<Rightarrow>
                   (Inr (), s\<lparr>fs := write_sidecar (fs s) (parent dest, stem dest @ ''.json'')
                                       (json_dumps doc)\<rparr>))
            else (Inr (), s)) of
        (Inl e, s1) \<Rightarrow> (Inl e, s1)
      | (Inr u, s1) \<Rightarrow>
          if sidecar_xmp opts then
            (Inr (), s1\<lparr>fs := write_sidecar (fs s1) (parent dest, stem dest @ ''.xmp'')
                        (xmp_sidecar E self (use_albums_as_keywords opts)
                           (use_persons_as_keywords opts) (keyword_template opts))\<rparr>)
          else (Inr (), s1))"

subsection \<open>Embedding the metadata\<close>

text \<open>
  Modelled from the spec: the class \<^verbatim>\<open>ExifTool\<close> of \<^verbatim>\<open>exiftool\<close> is not among the
  sources. Bound to one file, \<^verbatim>\<open>setvalue(tag, value)\<close> sets the tag of that file to the
  value and \<^verbatim>\<open>addvalues(tag, *values)\<close> appends values to it; both rewrite the file, so
  its modification time becomes the current time.
\<close>

definition set_tags :: "filesys \<Rightarrow> path \<Rightarrow> (jdict \<Rightarrow> jdict) \<Rightarrow> filesys" where
  "set_tags fsys p f =
     (case inode_of fsys p of
        None \<Rightarrow> fsys
      | Some i \<Rightarrow>
          (case inodes fsys i of
             None \<Rightarrow> fsys
           | Some x \<Rightarrow>
               fsys\<lparr>inodes := (inodes fsys)(i \<mapsto> x\<lparr>tags := f (tags x), mtime := now fsys\<rparr>)\<rparr>))"

definition setvalue :: "filesys \<Rightarrow> path \<Rightarrow> string \<Rightarrow> string \<Rightarrow> filesys" where
  "setvalue fsys p tag v = set_tags fsys p (AList.update tag (JList [v]))"

definition addvalues :: "filesys \<Rightarrow> path \<Rightarrow> string \<Rightarrow> string list \<Rightarrow> filesys" where
  "addvalues fsys p tag vs =
     set_tags fsys p (\<lambda>t. AList.update tag
        (JList ((case map_of t tag of Some (JList l) \<Rightarrow> l | Some (JStr x) \<Rightarrow> [x] | None \<Rightarrow> [])
                @ vs)) t)"

text \<open>
  \<^verbatim>\<open>_write_exif_data\<close>: the loop over the items of the sidecar's dictionary.
  \<^verbatim>\<open>val.pop(0)\<close> raises \<^verbatim>\<open>IndexError\<close> on an empty list, after the tags before it have
  been written.
\<close>

fun write_tags :: "filesys \<Rightarrow> path \<Rightarrow> jdict \<Rightarrow> (error + unit) \<times> filesys" where
  "write_tags fsys p [] = (Inr (), fsys)"
| "write_tags fsys p ((exiftag, JStr v) # r) =
     write_tags (set_tags fsys p (AList.update exiftag (JStr v))) p r"
| "write_tags fsys p ((exiftag, JList []) # r) = (Inl IndexError, fsys)"
| "write_tags fsys p ((exiftag, JList (v # vs)) # r) =
     write_tags (if vs \<noteq> [] then addvalues (setvalue fsys p exiftag v) p exiftag vs
                 else setvalue fsys p exiftag v) p r"

definition write_exif_data ::
  "env \<Rightarrow> photo \<Rightarrow> path \<Rightarrow> bool \<Rightarrow> bool \<Rightarrow> string list option \<Rightarrow> filesys
     \<Rightarrow> (error + unit) \<times> filesys" where
  "write_exif_data E self filepath use_albums use_persons template fsys =
     (if \<not> exists fsys filepath then (Inl FileNotFoundError, fsys)
      else case exiftool_json_sidecar E self use_albums use_persons template of
             Inl e \<Rightarrow> (Inl e, fsys)
           | Inr [] \<Rightarrow> (Inl IndexError, fsys)
           | Inr (exif_info # r) \<Rightarrow> write_tags fsys filepath exif_info)"

text \<open>
  Lines 555 to 570 (and 574 to 589): the metadata written to one file, the payload and
  the signature of the written file recorded.
\<close>

definition exif_write_one ::
  "env \<Rightarrow> photo \<Rightarrow> export2_opts \<Rightarrow> path \<Rightarrow> state \<Rightarrow> (error + unit) \<times> state" where
  "exif_write_one E self opts exported_file s =
     (case write_exif_data E self exported_file (use_albums_as_keywords opts)
             (use_persons_as_keywords opts) (keyword_template opts) (fs s) of
        (Inl e, fsys) \<Rightarrow> (Inl e, s\<lparr>fs := fsys\<rparr>)
      | (Inr u, fsys) \<Rightarrow>
          (case exiftool_json_sidecar E self (use_albums_as_keywords opts)
                  (use_persons_as_keywords opts) (keyword_template opts) of
             Inl e \<Rightarrow> (Inl e, s\<lparr>fs := fsys\<rparr>)
           | Inr doc \<Rightarrow>
               (Inr (),
                \<lparr>fs = fsys,
                 db = set_stat_exif_for_file
                        (set_exifdata_for_file (db s) exported_file (Some doc))
                        exported_file (file_sig fsys exported_file)\<rparr>)))"

text \<open>
  Lines 537 to 551: whether the metadata of a file has to be written. Without a payload
  in the database it has; with one, the first elements of the stored and of the fresh
  document are compared.
\<close>

definition files_are_different ::
  "env \<Rightarrow> photo \<Rightarrow> export2_opts \<Rightarrow> export_db \<Rightarrow> path \<Rightarrow> error + bool" where
  "files_are_different E self opts d exported_file =
     (case get_exifdata_for_file d exported_file of
        None \<Rightarrow> Inr True
      | Some [] \<Rightarrow> Inl IndexError
      | Some (old_data # r) \<Rightarrow>
          (case exiftool_json_sidecar E self (use_albums_as_keywords opts)
                  (use_persons_as_keywords opts) (keyword_template opts) of
             Inl e \<Rightarrow> Inl e
           | Inr [] \<Rightarrow> Inl IndexError
           | Inr (current_data # r') \<Rightarrow> Inr (\<not> dict_eq old_data current_data)))"

text \<open>The loop of the update mode, lines 535 to 570.\<close>

fun exif_update_loop ::
  "env \<Rightarrow> photo \<Rightarrow> export2_opts \<Rightarrow> path list \<Rightarrow> path list \<Rightarrow> state
     \<Rightarrow> (error + path list) \<times> state" where
  "exif_update_loop E self opts [] exif_files_updated s = (Inr exif_files_updated, s)"
| "exif_update_loop E self opts (exported_file # r) exif_files_updated s =
     (case files_are_different E self opts (db s) exported_file of
        Inl e \<Rightarrow> (Inl e, s)
      | Inr False \<Rightarrow> exif_update_loop E self opts r exif_files_updated s
      | Inr True \<Rightarrow>
          (case exif_write_one E self opts exported_file s of
             (Inl e, s1) \<Rightarrow> (Inl e, s1)
           | (Inr u, s1) \<Rightarrow>
               exif_update_loop E self opts r (exif_files_updated @ [exported_file]) s1))"

text \<open>The loop without update, lines 572 to 589.\<close>

fun exif_write_loop ::
  "env \<Rightarrow> photo \<Rightarrow> export2_opts \<Rightarrow> path list \<Rightarrow> path list \<Rightarrow> state
     \<Rightarrow> (error + path list) \<times> state" where
  "exif_write_loop E self opts [] exif_files_updated s = (Inr exif_files_updated, s)"
| "exif_write_loop E self opts (exported_file # r) exif_files_updated s =
     (case exif_write_one E self opts exported_file s of
        (Inl e, s1) \<Rightarrow> (Inl e, s1)
      | (Inr u, s1) \<Rightarrow>
          exif_write_loop E self opts r (exif_files_updated @ [exported_file]) s1)"

text \<open>Lines 527 to 597: the files whose metadata is looked at, the loop, the results.\<close>

definition export_metadata ::
  "env \<Rightarrow> photo \<Rightarrow> export2_opts \<Rightarrow> ExportResults \<Rightarrow> state
     \<Rightarrow> (error + ExportResults) \<times> state" where
  "export_metadata E self opts r s =
     (let exif_files = (if update opts then new r @ updated r @ skipped r else exported r) in
      if exiftool opts \<and> update opts \<and> exif_files \<noteq> [] then
        (case exif_update_loop E self opts exif_files [] s of
           (Inl e, s1) \<Rightarrow> (Inl e, s1)
         | (Inr xs, s1) \<Rightarrow> (Inr (r\<lparr>exif_updated := xs\<rparr>), s1))
      else if exiftool opts \<and> exif_files \<noteq> [] then
        (case exif_write_loop E self opts exif_files [] s of
           (Inl e, s1) \<Rightarrow> (Inl e, s1)
         | (Inr xs, s1) \<Rightarrow> (Inr (r\<lparr>exif_updated := xs\<rparr>), s1))
      else (Inr (r\<lparr>exif_updated := []\<rparr>), s))"

subsection \<open>export2 and export\<close>

text \<open>
  \<^verbatim>\<open>export2(dest, *filename, ...)\<close> on a disk: the result or the error raised, and the
  disk and the database as the call leaves them. The warning about the suffix of the
  destination has no effect and is left out.
\<close>

definition export2 ::
  "env \<Rightarrow> photo \<Rightarrow> string option \<Rightarrow> string list \<Rightarrow> export2_opts \<Rightarrow> filesys
     \<Rightarrow> (error + ExportResults) \<times> state" where
  "export2 E self dest fnames opts fsys =
     (let s0 = \<lparr>fs = fsys,
                db = (case export_db opts of None \<Rightarrow> ExportDBNoOp | Some d \<Rightarrow> d)\<rparr> in
      if edited opts \<and> \<not> hasadjustments self then (Inl ValueError, s0)
      else
        case get_dest self fsys dest fnames (edited opts) (use_photos_export opts) of
          Inl e \<Rightarrow> (Inl e, s0)
        | Inr dest0 \<Rightarrow>
            (let dest1 = (if \<not> update opts \<and> increment opts \<and> \<not> overwrite opts
                          then increment_dest fsys dest0 else dest0) in
             if exists fsys dest1 \<and> \<not> update opts \<and> \<not> overwrite opts \<and> \<not> increment opts
             then (Inl FileExistsError, s0)
             else
               case (if \<not> use_photos_export opts then export_local self dest1 opts s0
                     else export_with_photos E self dest1 fnames opts s0) of
                 (Inl e, s1) \<Rightarrow> (Inl e, s1)
               | (Inr (dest2, r), s1) \<Rightarrow>
                   (case write_sidecars E self dest2 opts s1 of
                      (Inl e, s2) \<Rightarrow> (Inl e, s2)
                    | (Inr u, s2) \<Rightarrow> export_metadata E self opts r s2)))"

text \<open>
  \<^verbatim>\<open>export(dest, *filename, ...)\<close> passes its arguments on and leaves \<^verbatim>\<open>update\<close> and
  \<^verbatim>\<open>export_db\<close> at their defaults. It returns a list of paths and the disk.
\<close>

definition export ::
  "env \<Rightarrow> photo \<Rightarrow> string option \<Rightarrow> string list \<Rightarrow> export_opts \<Rightarrow> filesys
     \<Rightarrow> (error + path list) \<times> filesys" where
  "export E self dest fnames opts fsys =
     (case export2 E self dest fnames
             \<lparr>edited = edited opts, live_photo = live_photo opts, raw_photo = raw_photo opts,
              export_as_hardlink = export_as_hardlink opts, overwrite = overwrite opts,
              increment = increment opts, sidecar_json = sidecar_json opts,
              sidecar_xmp = sidecar_xmp opts, use_photos_export = use_photos_export opts,
              timeout = timeout opts, exiftool = exiftool opts, no_xattr = no_xattr opts,
              use_albums_as_keywords = use_albums_as_keywords opts,
              use_persons_as_keywords = use_persons_as_keywords opts,
              keyword_template = keyword_template opts,
              update = False, export_db = None\<rparr> fsys of
        (Inl e, s) \<Rightarrow> (Inl e, fs s)
      | (Inr res, s) \<Rightarrow> (Inr (exported res), fs s))"

section \<open>Concrete inputs\<close>

text \<open>
  An environment and an asset to run the definitions on: the asset has the keywords
  k1, k2 and the person Alice, no title, description, albums or location, and a date
  in the time zone -04:00. The AppleScript export writes one file, named by the stem
  it is given.
\<close>

definition env0 :: env where
  "env0 = \<lparr>UNKNOWN_PERSON = ''_UNKNOWN_'',
           OSXPHOTOS_NONE_SENTINEL = ''OSXPhotosXYZZY'',
           dd_to_dms_str = (\<lambda>lat lon. (''0 deg'', ''0 deg'')),
           xmp_template = (\<lambda>p ks ps ss. ''<xmp/>''),
           export_photo_uuid_applescript =
             (\<lambda>u dir filestem orig edit live tmo brst fsys.
                (Some [(dir, filestem @ ''.jpeg'')],
                 write_text fsys (dir, filestem @ ''.jpeg'') ''photos''))\<rparr>"

definition photo0 :: photo where
  "photo0 = \<lparr>uuid = ''U1'', filename = ''photo.jpg'',
             path = Some (''/lib'', ''orig.jpg''), path_edited = None,
             path_live_photo = None, path_raw = None,
             hasadjustments = False, ismissing = False, is_live_photo = False,
             has_raw = False, burst = False,
             title = None, description = None,
             photo_keywords = [''k1'', ''k2''], persons = [''Alice''], albums = [],
             location = (None, None),
             date = \<lparr>strftime_ymdhms = ''2020:04:11 12:00:00'', strftime_z = ''-0400''\<rparr>,
             date_modified = None,
             json = ''{}'',
             render_template = (\<lambda>t. ([], []))\<rparr>"

text \<open>
  The options at the defaults of \<^verbatim>\<open>export2\<close>, and disks to export on: the library
  holds the original of the asset; the export directory is empty (\<open>fs0\<close>), holds another
  file under the asset's name (\<open>fs_taken\<close>), a hard link to the original (\<open>fs_link\<close>) or a
  copy of the original (\<open>fs_copy\<close>). \<open>ledger0\<close> is the empty database.
\<close>

definition opts0 :: export2_opts where
  "opts0 = \<lparr>edited = False, live_photo = False, raw_photo = False,
            export_as_hardlink = False, overwrite = False, increment = True,
            sidecar_json = False, sidecar_xmp = False, use_photos_export = False,
            timeout = 120, exiftool = False, no_xattr = False,
            use_albums_as_keywords = False, use_persons_as_keywords = False,
            keyword_template = None, update = False, export_db = None\<rparr>"

definition file0 :: file_data where
  "file0 = \<lparr>bytes = ''JPEG'', tags = [], xattrs = [''com.apple.metadata''], mtime = 100\<rparr>"

definition file1 :: file_data where
  "file1 = \<lparr>bytes = ''OTHER'', tags = [], xattrs = [], mtime = 150\<rparr>"

definition fs0 :: filesys where
  "fs0 = \<lparr>dirs = [''/lib'', ''/out''], entries = [((''/lib'', ''orig.jpg''), 1)],
          inodes = [1 \<mapsto> file0], now = 200\<rparr>"

definition fs_taken :: filesys where
  "fs_taken = fs0\<lparr>entries := [((''/lib'', ''orig.jpg''), 1), ((''/out'', ''photo.jpg''), 2)],
                  inodes := [1 \<mapsto> file0, 2 \<mapsto> file1]\<rparr>"

definition fs_link :: filesys where
  "fs_link = fs0\<lparr>entries := [((''/lib'', ''orig.jpg''), 1), ((''/out'', ''photo.jpg''), 1)]\<rparr>"

definition fs_copy :: filesys where
  "fs_copy = fs0\<lparr>entries := [((''/lib'', ''orig.jpg''), 1), ((''/out'', ''photo.jpg''), 2)],
                  inodes := [1 \<mapsto> file0, 2 \<mapsto> file0]\<rparr>"

definition ledger0 :: ledger where
  "ledger0 = \<lparr>uuid_tab = Map.empty, info_tab = Map.empty, stat_orig_tab = Map.empty,
              stat_exif_tab = Map.empty, exifdata_tab = Map.empty\<rparr>"

section \<open>Properties\<close>

subsection \<open>The JSON sidecar\<close>

lemma map_of_setitem_if:
  "map_of (setitem_if c k v d) k' = (if c \<and> k' = k then Some v else map_of d k')"
  by (simp add: setitem_if_def update_conv')

lemma map_of_exif_gps_other:
  "k \<notin> {''EXIF:GPSLatitude'', ''EXIF:GPSLongitude'', ''Composite:GPSPosition'',
         ''EXIF:GPSLatitudeRef'', ''EXIF:GPSLongitudeRef''} \<Longrightarrow>
   map_of (exif_gps E self d) k = map_of d k"
  by (auto simp: exif_gps_def update_conv' split: option.splits prod.splits)

lemma sidecar_keywords:
  assumes "exiftool_json_sidecar E self ua up kt = Inr doc"
  shows "sidecar_field ''IPTC:Keywords'' (Inr doc) =
           (if keyword_list_of E self ua up kt = [] then None
            else Some (JList (keyword_list_of E self ua up kt)))"
    and "sidecar_field ''XMP:TagsList'' (Inr doc) =
           (if keyword_list_of E self ua up kt = [] then None
            else Some (JList (keyword_list_of E self ua up kt)))"
    and "sidecar_field ''XMP:PersonInImage'' (Inr doc) =
           (if person_list_of E self = [] then None
            else Some (JList (person_list_of E self)))"
  using assms
  by (auto simp: exiftool_json_sidecar_def sidecar_field_def Let_def map_of_setitem_if
      update_conv' map_of_exif_gps_other exif_keywords_def exif_head_def
      split: option.splits prod.splits)

lemma sidecar_returns:
  "findall_offset (strftime_z (date self)) \<noteq> None \<Longrightarrow>
   \<exists>doc. exiftool_json_sidecar E self ua up kt = Inr doc"
  by (auto simp: exiftool_json_sidecar_def Let_def split: option.splits prod.splits)

lemma sort_alice: "sort [''Alice''] = [''Alice'']"
  by simp

text \<open>
  C4, as the code has it. For an asset whose keywords are k1, k2 (in this order) and
  whose only person is Alice, exported with \<^verbatim>\<open>use_persons_as_keywords=True\<close>,
  without album keywords and without a keyword template, and whose date carries a
  time-zone offset: the sidecar is produced, its \<^verbatim>\<open>IPTC:Keywords\<close> and
  \<^verbatim>\<open>XMP:TagsList\<close> are the list k1, k2, Alice (the asset's keywords in their own
  order, then the sorted persons), which holds the same values as the sorted list
  Alice, k1, k2, and its \<^verbatim>\<open>XMP:PersonInImage\<close> is the list holding Alice.
\<close>

theorem C4_sidecar_keywords_then_persons:
  assumes "photo_keywords self = [''k1'', ''k2'']"
    and "persons self = [''Alice'']"
    and "UNKNOWN_PERSON E \<noteq> ''Alice''"
    and "\<not> ua \<or> albums self = []"
    and "findall_offset (strftime_z (date self)) \<noteq> None"
  shows "\<exists>doc. exiftool_json_sidecar E self ua True None = Inr doc
           \<and> sidecar_field ''IPTC:Keywords'' (Inr doc) = Some (JList [''k1'', ''k2'', ''Alice''])
           \<and> sidecar_field ''XMP:TagsList'' (Inr doc) = Some (JList [''k1'', ''k2'', ''Alice''])
           \<and> sidecar_field ''XMP:PersonInImage'' (Inr doc) = Some (JList [''Alice''])
           \<and> sort [''k1'', ''k2'', ''Alice''] = [''Alice'', ''k1'', ''k2'']"
proof -
  have pl: "person_list_of E self = [''Alice'']"
    using assms(2,3) by (simp add: person_list_of_def)
  have kl: "keyword_list_of E self ua True None = [''k1'', ''k2'', ''Alice'']"
    using assms(1,4) pl by (auto simp: keyword_list_of_def)
  obtain doc where d: "exiftool_json_sidecar E self ua True None = Inr doc"
    using sidecar_returns [OF assms(5)] by blast
  have "sort [''k1'', ''k2'', ''Alice''] = [''Alice'', ''k1'', ''k2'']"
    by code_simp
  then show ?thesis
    using d sidecar_keywords [OF d] pl kl by simp
qed

theorem C4_sidecar_witness:
  "(\<exists>doc. exiftool_json_sidecar env0 photo0 False True None = Inr doc
      \<and> sidecar_field ''IPTC:Keywords'' (Inr doc) = Some (JList [''k1'', ''k2'', ''Alice''])
      \<and> sidecar_field ''XMP:PersonInImage'' (Inr doc) = Some (JList [''Alice'']))
   \<and> photo_keywords photo0 = [''k1'', ''k2''] \<and> persons photo0 = [''Alice'']
   \<and> UNKNOWN_PERSON env0 \<noteq> ''Alice''
   \<and> findall_offset (strftime_z (date photo0)) \<noteq> None"
proof -
  have a: "photo_keywords photo0 = [''k1'', ''k2'']" "persons photo0 = [''Alice'']"
    by (simp_all add: photo0_def)
  have b: "UNKNOWN_PERSON env0 \<noteq> ''Alice''"
    by (simp add: env0_def)
  have c: "\<not> False \<or> albums photo0 = []"
    by simp
  have d: "findall_offset (strftime_z (date photo0)) \<noteq> None"
    by (simp add: photo0_def is_digit_def)
  show ?thesis
    using C4_sidecar_keywords_then_persons [OF a b c d] a b d by blast
qed

text \<open>
  The claim as stated fails: the keyword list of that sidecar is not the sorted list
  Alice, k1, k2.
\<close>

theorem C4_sidecar_not_sorted:
  "sidecar_field ''IPTC:Keywords'' (exiftool_json_sidecar env0 photo0 False True None)
     = Some (JList [''k1'', ''k2'', ''Alice''])
   \<and> sidecar_field ''IPTC:Keywords'' (exiftool_json_sidecar env0 photo0 False True None)
     \<noteq> Some (JList [''Alice'', ''k1'', ''k2''])"
  by (simp add: exiftool_json_sidecar_def sidecar_field_def Let_def map_of_setitem_if
      update_conv' exif_gps_def exif_keywords_def exif_head_def keyword_list_of_def
      person_list_of_def photo0_def env0_def is_digit_def)


subsection \<open>The two entry points\<close>

text \<open>The no-op database stays what it is through every stage of an export.\<close>

lemma db_record_noop: "db_record ExportDBNoOp dest self sg = ExportDBNoOp"
  by (simp add: db_record_def)

lemma export_photo_noop:
  "export_photo self src dest u ow nx hl ex s = (r, s') \<Longrightarrow> db s = ExportDBNoOp \<Longrightarrow> db s' = ExportDBNoOp"
  by (auto simp: export_photo_def Let_def link_and_record_def copy_and_record_def db_record_noop
      split: sum.splits if_splits)

lemma find_match_noop:
  "find_match self src fls s = Some (p, s') \<Longrightarrow> db s = ExportDBNoOp \<Longrightarrow> db s' = ExportDBNoOp"
  by (induction fls) (auto simp: adopt_def db_record_noop split: if_splits)

lemma find_dest_noop:
  "find_dest self src dest s = (p, s') \<Longrightarrow> db s = ExportDBNoOp \<Longrightarrow> db s' = ExportDBNoOp"
  by (auto simp: find_dest_def Let_def adopt_def db_record_noop
      split: option.splits if_splits dest: find_match_noop)

lemma export_live_noop:
  "export_live self dest opts r s = (x, s') \<Longrightarrow> db s = ExportDBNoOp \<Longrightarrow> db s' = ExportDBNoOp"
  by (auto simp: export_live_def split: option.splits sum.splits prod.splits if_splits
      dest: export_photo_noop)

lemma export_raw_noop:
  "export_raw self dest opts r s = (x, s') \<Longrightarrow> db s = ExportDBNoOp \<Longrightarrow> db s' = ExportDBNoOp"
  by (auto simp: export_raw_def split: option.splits sum.splits prod.splits if_splits
      dest: export_photo_noop)

lemma export_local_noop:
  assumes "export_local self dest opts s = (x, s')" and "db s = ExportDBNoOp"
  shows "db s' = ExportDBNoOp"
proof (cases "source_of self (fs s) (edited opts)")
  case (Inl e)
  then show ?thesis using assms by (simp add: export_local_def)
next
  case (Inr src)
  obtain d1 s1 where fd: "(if update opts \<and> exists (fs s) dest then find_dest self src dest s
                 else (dest, s)) = (d1, s1)" by (cases "(if update opts \<and> exists (fs s) dest then find_dest self src dest s
                 else (dest, s))") auto
  have n1: "db s1 = ExportDBNoOp" using fd assms(2) by (auto split: if_splits dest: find_dest_noop)
  obtain x2 s2 where ep: "export_photo self src d1 (update opts) (overwrite opts) (no_xattr opts)
                       (export_as_hardlink opts) (exiftool opts) s1 = (x2, s2)" by fastforce
  have n2: "db s2 = ExportDBNoOp" using export_photo_noop [OF ep n1] .
  show ?thesis
    using assms(1) Inr fd ep n2
    by (auto simp: export_local_def split: sum.splits prod.splits
        dest: export_live_noop export_raw_noop)
qed

lemma export_with_photos_noop:
  "export_with_photos E self dest fnames opts s = (x, s') \<Longrightarrow> db s = ExportDBNoOp \<Longrightarrow> db s' = ExportDBNoOp"
  by (auto simp: export_with_photos_def Let_def split: prod.splits)

lemma write_sidecars_noop:
  "write_sidecars E self dest opts s = (x, s') \<Longrightarrow> db s = ExportDBNoOp \<Longrightarrow> db s' = ExportDBNoOp"
  by (auto simp: write_sidecars_def split: sum.splits prod.splits if_splits)

lemma exif_write_one_noop:
  "exif_write_one E self opts f s = (x, s') \<Longrightarrow> db s = ExportDBNoOp \<Longrightarrow> db s' = ExportDBNoOp"
  by (auto simp: exif_write_one_def split: sum.splits prod.splits if_splits)

lemma exif_update_loop_noop:
  "exif_update_loop E self opts fls acc s = (x, s') \<Longrightarrow> db s = ExportDBNoOp \<Longrightarrow> db s' = ExportDBNoOp"
  by (induction fls arbitrary: acc s)
    (auto split: sum.splits prod.splits bool.splits dest: exif_write_one_noop)

lemma exif_write_loop_noop:
  "exif_write_loop E self opts fls acc s = (x, s') \<Longrightarrow> db s = ExportDBNoOp \<Longrightarrow> db s' = ExportDBNoOp"
  by (induction fls arbitrary: acc s)
    (auto split: sum.splits prod.splits dest: exif_write_one_noop)

lemma export_metadata_noop:
  "export_metadata E self opts r s = (x, s') \<Longrightarrow> db s = ExportDBNoOp \<Longrightarrow> db s' = ExportDBNoOp"
  by (auto simp: export_metadata_def Let_def split: sum.splits prod.splits if_splits
      dest: exif_update_loop_noop exif_write_loop_noop)

lemma export2_noop:
  assumes "export2 E self dest fnames opts fsys = (x, s')"
    and "export_db opts = None \<or> export_db opts = Some ExportDBNoOp"
  shows "db s' = ExportDBNoOp"
  using assms
  by (auto simp: export2_def Let_def split: sum.splits prod.splits if_splits
      dest!: export_local_noop export_with_photos_noop write_sidecars_noop export_metadata_noop)

lemma as_export2:
  "export_opts.extend opts (export2_opts.fields False None) =
     \<lparr>edited = edited opts, live_photo = live_photo opts, raw_photo = raw_photo opts,
              export_as_hardlink = export_as_hardlink opts, overwrite = overwrite opts,
              increment = increment opts, sidecar_json = sidecar_json opts,
              sidecar_xmp = sidecar_xmp opts, use_photos_export = use_photos_export opts,
              timeout = timeout opts, exiftool = exiftool opts, no_xattr = no_xattr opts,
              use_albums_as_keywords = use_albums_as_keywords opts,
              use_persons_as_keywords = use_persons_as_keywords opts,
              keyword_template = keyword_template opts,
              update = False, export_db = None\<rparr>"
  by (cases opts) (simp add: export_opts.defs export2_opts.defs)

text \<open>
  C9. For all arguments, \<^verbatim>\<open>export\<close> returns the \<open>exported\<close> list of the results that
  \<^verbatim>\<open>export2\<close> returns for the same arguments with \<^verbatim>\<open>update=False\<close> and
  \<^verbatim>\<open>export_db=None\<close>, raises what \<^verbatim>\<open>export2\<close> raises, and leaves the disk as
  \<^verbatim>\<open>export2\<close> leaves it; the database of that call is the no-op database from its
  start to its end.
\<close>

theorem C9_export_returns_exported_of_export2:
  "fst (export E self dest fnames opts fsys) =
     map_sum id exported
       (fst (export2 E self dest fnames
               (export_opts.extend opts (export2_opts.fields False None)) fsys))
   \<and> snd (export E self dest fnames opts fsys) =
       fs (snd (export2 E self dest fnames
               (export_opts.extend opts (export2_opts.fields False None)) fsys))
   \<and> db (snd (export2 E self dest fnames
               (export_opts.extend opts (export2_opts.fields False None)) fsys)) = ExportDBNoOp"
proof -
  obtain x s where e: "export2 E self dest fnames
               (export_opts.extend opts (export2_opts.fields False None)) fsys = (x, s)"
    by fastforce
  have "export_db (export_opts.extend opts (export2_opts.fields False None)) = None"
    by (simp add: as_export2)
  then have "db s = ExportDBNoOp" using export2_noop [OF e] by simp
  then show ?thesis using e
    by (auto simp: export_def as_export2 [symmetric] split: sum.splits)
qed

theorem C9_export_witness:
  "fst (export env0 photo0 (Some ''/out'') [] (export_opts.truncate opts0) fs0)
     = Inr [(''/out'', ''photo.jpg'')]
   \<and> fst (export2 env0 photo0 (Some ''/out'') [] opts0 fs0)
     = Inr (results [(''/out'', ''photo.jpg'')] [] [] [])"
proof -
  have o: "export_opts.extend (export_opts.truncate opts0) (export2_opts.fields False None)
             = opts0"
    by (simp add: opts0_def export_opts.defs export2_opts.defs)
  have r: "fst (export2 env0 photo0 (Some ''/out'') [] opts0 fs0)
             = Inr (results [(''/out'', ''photo.jpg'')] [] [] [])"
    by code_simp
  show ?thesis
    using C9_export_returns_exported_of_export2
            [of env0 photo0 "Some ''/out''" "[]" "export_opts.truncate opts0" fs0]
    by (simp add: o r results_def)
qed

subsection \<open>An occupied destination\<close>

text \<open>
  C5. A call of \<^verbatim>\<open>export2\<close> with \<^verbatim>\<open>update\<close>, \<^verbatim>\<open>overwrite\<close> and \<^verbatim>\<open>increment\<close> all
  false, whose arguments pass the checks before the destination is composed and whose
  composed destination exists on the disk, raises \<^verbatim>\<open>FileExistsError\<close> and leaves the
  disk and the database exactly as they were.
\<close>

theorem C5_collision_raises_and_changes_nothing:
  assumes "\<not> update opts" and "\<not> overwrite opts" and "\<not> increment opts"
    and "\<not> edited opts \<or> hasadjustments self"
    and "get_dest self fsys dest fnames (edited opts) (use_photos_export opts) = Inr d"
    and "exists fsys d"
  shows "export2 E self dest fnames opts fsys =
           (Inl FileExistsError,
            \<lparr>fs = fsys, db = (case export_db opts of None \<Rightarrow> ExportDBNoOp | Some l \<Rightarrow> l)\<rparr>)"
  using assms by (auto simp: export2_def Let_def)

theorem C5_collision_witness:
  "export2 env0 photo0 (Some ''/out'') [] (opts0\<lparr>increment := False\<rparr>) fs_taken
     = (Inl FileExistsError, \<lparr>fs = fs_taken, db = ExportDBNoOp\<rparr>)
   \<and> exists fs_taken (''/out'', ''photo.jpg'')
   \<and> get_dest photo0 fs_taken (Some ''/out'') [] False False = Inr (''/out'', ''photo.jpg'')"
proof -
  have g: "get_dest photo0 fs_taken (Some ''/out'') []
             (edited (opts0\<lparr>increment := False\<rparr>))
             (use_photos_export (opts0\<lparr>increment := False\<rparr>)) = Inr (''/out'', ''photo.jpg'')"
    by (simp add: get_dest_def isdir_def fs_taken_def fs0_def photo0_def opts0_def)
  have x: "exists fs_taken (''/out'', ''photo.jpg'')"
    by (simp add: exists_def inode_of_def fs_taken_def fs0_def)
  have "export2 env0 photo0 (Some ''/out'') [] (opts0\<lparr>increment := False\<rparr>) fs_taken
     = (Inl FileExistsError, \<lparr>fs = fs_taken, db = ExportDBNoOp\<rparr>)"
    using C5_collision_raises_and_changes_nothing [OF _ _ _ _ g x, of env0]
    by (simp add: opts0_def)
  then show ?thesis using g x by (simp add: opts0_def)
qed

end
